theory Spec2Isabelle
  imports Complex_Main "HOL-Library.Char_ord" "HOL-Library.List_Lexorder"
begin

section \<open>BudgetBuddy: aggregation, comparison rows and pie geometry of app.py\<close>

text \<open>
  The development embeds the computational part of \<^verbatim>\<open>src/app.py\<close>: the aggregator
  \<^verbatim>\<open>totals_for_month\<close>, the comparison block shared by \<^verbatim>\<open>monthly_summary\<close> and
  \<^verbatim>\<open>download_summary_svg\<close>, the slice builder \<^verbatim>\<open>make_pie_paths\<close>, the bar scaling of
  the SVG export and the date handling of \<^verbatim>\<open>add_expense\<close> and \<^verbatim>\<open>edit_expense\<close>.

  The aggregator and the comparison rows compute with double-precision floats: each
  \<open>+\<close>, \<open>-\<close>, \<open>*\<close>, \<open>/\<close> and \<^verbatim>\<open>round(x, 2)\<close> returns the double nearest to the exact
  result. The geometry of the slice builder and the bar scaling are modelled over exact
  reals, where \<^verbatim>\<open>round(x, 2)\<close> is rounding of the exact value to the nearest multiple of
  1/100, ties to the even neighbour.
  Strings are \<open>string\<close>; a dict is an association list in insertion order.
\<close>

subsection \<open>Python values used by the handlers\<close>

datatype py_error =
    ZeroDivisionError
  | ValueError
  | OverflowError
  | BadRequestKeyError
  | NotFound

text \<open>\<^verbatim>\<open>round(x, ndigits)\<close> on a float.\<close>

definition round_half_even :: "real \<Rightarrow> int" where
  "round_half_even x =
     (let f = \<lfloor>x\<rfloor>; r = x - of_int f
      in if r < 1 / 2 then f
         else if 1 / 2 < r then f + 1
         else if even f then f else f + 1)"

definition py_round :: "real \<Rightarrow> nat \<Rightarrow> real" where
  "py_round x ndigits = of_int (round_half_even (x * 10 ^ ndigits)) / 10 ^ ndigits"

subsection \<open>Double-precision floats\<close>

text \<open>
  A finite Python float is a real number of the form \<open>m * 2 ^ k\<close> with a 53-bit
  significand. \<open>binade x\<close> is the exponent \<open>e\<close> with \<open>2 ^ e \<le> x < 2 ^ (e + 1)\<close> of a
  positive \<open>x\<close>, and \<open>to_double x\<close> is the double nearest to \<open>x\<close>, ties to the even
  significand, with the gradual underflow of IEEE 754 below \<open>2 ^ -1022\<close>. The exponent
  is not bounded above: results beyond the largest double, infinities and NaN are
  outside this model. Every arithmetic operation on floats returns the double nearest
  to the exact result.
\<close>

function binade :: "real \<Rightarrow> int" where
  "binade x = (if 2 \<le> x then binade (x / 2) + 1
               else if 0 < x \<and> x < 1 then binade (x * 2) - 1
               else 0)"
  by pat_completeness auto
termination
proof (relation "measure (\<lambda>x. nat \<lfloor>\<bar>log 2 x\<bar>\<rfloor> + (if x < 1 then 1 else 0))")
  show "wf (measure (\<lambda>x::real. nat \<lfloor>\<bar>log 2 x\<bar>\<rfloor> + (if x < 1 then 1 else 0)))"
    by simp
next
  fix x :: real
  assume x: "2 \<le> x"
  then have "log 2 (x / 2) = log 2 x - 1" and "1 \<le> log 2 x"
    by (simp_all add: log_divide le_log_iff)
  then have "\<lfloor>\<bar>log 2 (x / 2)\<bar>\<rfloor> = \<lfloor>\<bar>log 2 x\<bar>\<rfloor> - 1" and "1 \<le> \<lfloor>\<bar>log 2 x\<bar>\<rfloor>"
    by simp_all
  with x show "(x / 2, x) \<in> measure (\<lambda>x. nat \<lfloor>\<bar>log 2 x\<bar>\<rfloor> + (if x < 1 then 1 else 0))"
    by simp
next
  fix x :: real
  assume "\<not> 2 \<le> x" and x: "0 < x \<and> x < 1"
  then have l: "log 2 (x * 2) = log 2 x + 1" "log 2 x < 0"
    by (simp_all add: log_mult)
  show "(x * 2, x) \<in> measure (\<lambda>x. nat \<lfloor>\<bar>log 2 x\<bar>\<rfloor> + (if x < 1 then 1 else 0))"
  proof (cases "x * 2 < 1")
    case True
    then have "log 2 (x * 2) < 0"
      using x by simp
    with l have "\<bar>log 2 (x * 2)\<bar> = \<bar>log 2 x\<bar> - 1" and "1 \<le> \<bar>log 2 x\<bar>"
      by simp_all
    then have "\<lfloor>\<bar>log 2 (x * 2)\<bar>\<rfloor> = \<lfloor>\<bar>log 2 x\<bar>\<rfloor> - 1" and "1 \<le> \<lfloor>\<bar>log 2 x\<bar>\<rfloor>"
      by simp_all
    with x True show ?thesis
      by simp
  next
    case False
    then have "0 \<le> log 2 (x * 2)"
      using x by (simp add: zero_le_log_cancel_iff)
    with l have "0 \<le> \<bar>log 2 (x * 2)\<bar>" and "\<bar>log 2 (x * 2)\<bar> < 1"
      by simp_all
    then have "\<lfloor>\<bar>log 2 (x * 2)\<bar>\<rfloor> = 0"
      by linarith
    with x False show ?thesis
      by simp
  qed
qed

declare binade.simps [simp del]

definition pow2 :: "int \<Rightarrow> real" where
  "pow2 e = (if 0 \<le> e then 2 ^ nat e else 1 / 2 ^ nat (- e))"

definition to_double :: "real \<Rightarrow> real" where
  "to_double x =
     (if x = 0 then 0
      else let e = max (binade \<bar>x\<bar>) (- 1022); q = pow2 (e - 52)
           in of_int (round_half_even (x / q)) * q)"

text \<open>\<^verbatim>\<open>a + b\<close>, \<^verbatim>\<open>a - b\<close>, \<^verbatim>\<open>a * b\<close> and \<^verbatim>\<open>a / b\<close> (for \<open>b \<noteq> 0\<close>) on floats.\<close>

definition float_add :: "real \<Rightarrow> real \<Rightarrow> real" where
  "float_add a b = to_double (a + b)"

definition float_sub :: "real \<Rightarrow> real \<Rightarrow> real" where
  "float_sub a b = to_double (a - b)"

definition float_mul :: "real \<Rightarrow> real \<Rightarrow> real" where
  "float_mul a b = to_double (a * b)"

definition float_div :: "real \<Rightarrow> real \<Rightarrow> real" where
  "float_div a b = to_double (a / b)"

text \<open>
  \<^verbatim>\<open>round(x, ndigits)\<close> as a float: the exact value of \<open>x\<close> is rounded to \<open>ndigits\<close>
  decimals, ties to even, and the decimal is converted to the nearest double.
\<close>

definition float_round :: "real \<Rightarrow> nat \<Rightarrow> real" where
  "float_round x ndigits = to_double (py_round x ndigits)"

text \<open>A dict with string keys: \<^verbatim>\<open>d.get(k, default)\<close>, \<^verbatim>\<open>d[k] = v\<close> and \<^verbatim>\<open>d.keys()\<close>.\<close>

type_synonym 'v dict = "(string \<times> 'v) list"

fun dict_get :: "'v dict \<Rightarrow> string \<Rightarrow> 'v \<Rightarrow> 'v" where
  "dict_get [] k dflt = dflt"
| "dict_get ((k', v) # d) k dflt = (if k' = k then v else dict_get d k dflt)"

fun dict_set :: "'v dict \<Rightarrow> string \<Rightarrow> 'v \<Rightarrow> 'v dict" where
  "dict_set [] k v = [(k, v)]"
| "dict_set ((k', v') # d) k v = (if k' = k then (k', v) # d else (k', v') # dict_set d k v)"

definition dict_keys :: "'v dict \<Rightarrow> string list" where
  "dict_keys d = map fst d"

definition dict_values :: "'v dict \<Rightarrow> 'v list" where
  "dict_values d = map snd d"

subsection \<open>The Expense model and the aggregator\<close>

record pydate =
  year :: int
  month :: int
  day :: int

record expense =
  id' :: nat
  title :: string
  amount :: real
  category :: string
  date :: pydate
  user_id :: "nat option"

text \<open>
  \<^verbatim>\<open>totals_for_month\<close>: the query keeps the rows of the table whose date has the given
  year and month; the loop accumulates each amount into the category's entry and into
  the running total, by float additions. An amount is a finite double.
\<close>

fun totals_loop :: "expense list \<Rightarrow> real dict \<Rightarrow> real \<Rightarrow> real dict \<times> real" where
  "totals_loop [] totals tot = (totals, tot)"
| "totals_loop (e # es) totals tot =
     totals_loop es
       (dict_set totals (category e) (float_add (dict_get totals (category e) 0) (amount e)))
       (float_add tot (amount e))"

definition totals_for_month :: "expense list \<Rightarrow> int \<Rightarrow> int \<Rightarrow> real dict \<times> real" where
  "totals_for_month table mth yr =
     totals_loop (filter (\<lambda>e. year (date e) = yr \<and> month (date e) = mth) table) [] 0"

subsection \<open>Dates of the standard library\<close>

text \<open>
  \<^verbatim>\<open>date(year, month, day)\<close> raises ValueError outside years 1 to 9999, months 1 to 12
  and the days of the month; \<^verbatim>\<open>d - timedelta(days=1)\<close> is the previous calendar day
  and raises OverflowError before 0001-01-01.
\<close>

definition is_leap :: "int \<Rightarrow> bool" where
  "is_leap y = (y mod 4 = 0 \<and> (y mod 100 \<noteq> 0 \<or> y mod 400 = 0))"

definition days_in_month :: "int \<Rightarrow> int \<Rightarrow> int" where
  "days_in_month y m =
     (if m = 2 then (if is_leap y then 29 else 28)
      else if m = 4 \<or> m = 6 \<or> m = 9 \<or> m = 11 then 30
      else 31)"

definition py_date :: "int \<Rightarrow> int \<Rightarrow> int \<Rightarrow> py_error + pydate" where
  "py_date y m d =
     (if 1 \<le> y \<and> y \<le> 9999 \<and> 1 \<le> m \<and> m \<le> 12 \<and> 1 \<le> d \<and> d \<le> days_in_month y m
      then Inr \<lparr>year = y, month = m, day = d\<rparr>
      else Inl ValueError)"

definition date_minus_one_day :: "pydate \<Rightarrow> py_error + pydate" where
  "date_minus_one_day dt =
     (if 1 < day dt then Inr (dt\<lparr>day := day dt - 1\<rparr>)
      else if 1 < month dt
        then Inr \<lparr>year = year dt, month = month dt - 1,
                 day = days_in_month (year dt) (month dt - 1)\<rparr>
      else if 1 < year dt then Inr \<lparr>year = year dt - 1, month = 12, day = 31\<rparr>
      else Inl OverflowError)"

subsection \<open>The period of a summary request\<close>

text \<open>
  The query parameters of \<^verbatim>\<open>/summary\<close> and \<^verbatim>\<open>/download_summary_svg\<close>, read with
  \<^verbatim>\<open>request.args.get(name, default, type=int)\<close>: \<open>None\<close> is a parameter that is absent
  or not an integer. Both handlers resolve the two periods with the same statements.
\<close>

record summary_args =
  arg_month :: "int option"
  arg_year :: "int option"
  arg_compare_month :: "int option"
  arg_compare_year :: "int option"

record periods =
  p_month :: int
  p_year :: int
  compare_month :: int
  compare_year :: int

definition previous_period :: "int \<Rightarrow> int \<Rightarrow> py_error + int \<times> int" where
  "previous_period mth yr =
     (case py_date yr mth 1 of
        Inl e \<Rightarrow> Inl e
      | Inr first_of_current \<Rightarrow>
          (case date_minus_one_day first_of_current of
             Inl e \<Rightarrow> Inl e
           | Inr prev_month_last_day \<Rightarrow>
               Inr (month prev_month_last_day, year prev_month_last_day)))"

definition resolve_periods :: "pydate \<Rightarrow> summary_args \<Rightarrow> py_error + periods" where
  "resolve_periods today a =
     (let mth = (case arg_month a of None \<Rightarrow> month today | Some m \<Rightarrow> m);
          yr = (case arg_year a of None \<Rightarrow> year today | Some y \<Rightarrow> y)
      in case (arg_compare_month a, arg_compare_year a) of
           (Some cm, Some cy) \<Rightarrow>
             Inr \<lparr>p_month = mth, p_year = yr, compare_month = cm, compare_year = cy\<rparr>
         | _ \<Rightarrow>
             (case previous_period mth yr of
                Inl e \<Rightarrow> Inl e
              | Inr (cm, cy) \<Rightarrow>
                  Inr \<lparr>p_month = mth, p_year = yr, compare_month = cm, compare_year = cy\<rparr>))"

subsection \<open>Comparison rows\<close>

text \<open>
  The value of \<^verbatim>\<open>pct_change\<close> is \<^verbatim>\<open>None\<close>, the string \<^verbatim>\<open>"inf"\<close> or a float.
\<close>

datatype pct_value = PyNone | PyStr string | PyFloat real

record comparison_row =
  category :: string
  primary :: real
  compare :: real
  diff :: real
  pct_change :: pct_value

record slice =
  category :: string
  "value" :: real

text \<open>\<^verbatim>\<open>sorted(set(list(primary_totals_map.keys()) + list(compare_totals_map.keys())))\<close>\<close>

definition categories :: "real dict \<Rightarrow> real dict \<Rightarrow> string list" where
  "categories primary_totals_map compare_totals_map =
     sorted_list_of_set (set (dict_keys primary_totals_map @ dict_keys compare_totals_map))"

text \<open>The body of the loop over the categories: the row and the two slices of one category.\<close>

definition comparison_entry :: "real dict \<Rightarrow> real dict \<Rightarrow> string \<Rightarrow> comparison_row" where
  "comparison_entry primary_totals_map compare_totals_map cat =
     (let p = float_round (dict_get primary_totals_map cat 0) 2;
          c = float_round (dict_get compare_totals_map cat 0) 2;
          df = float_round (float_sub p c) 2;
          pct = (if c = 0 then (if p = 0 then PyNone else PyStr ''inf'')
                 else PyFloat (float_round (float_mul (float_div df c) 100) 2))
      in \<lparr>comparison_row.category = cat, primary = p, compare = c, diff = df, pct_change = pct\<rparr>)"

definition comparison :: "real dict \<Rightarrow> real dict \<Rightarrow> comparison_row list" where
  "comparison primary_totals_map compare_totals_map =
     map (comparison_entry primary_totals_map compare_totals_map)
       (categories primary_totals_map compare_totals_map)"

definition primary_slices :: "real dict \<Rightarrow> real dict \<Rightarrow> slice list" where
  "primary_slices primary_totals_map compare_totals_map =
     map (\<lambda>cat. \<lparr>category = cat, value = float_round (dict_get primary_totals_map cat 0) 2\<rparr>)
       (categories primary_totals_map compare_totals_map)"

definition compare_slices :: "real dict \<Rightarrow> real dict \<Rightarrow> slice list" where
  "compare_slices primary_totals_map compare_totals_map =
     map (\<lambda>cat. \<lparr>category = cat, value = float_round (dict_get compare_totals_map cat 0) 2\<rparr>)
       (categories primary_totals_map compare_totals_map)"

subsection \<open>Formatting floats\<close>

text \<open>
  The format specification \<^verbatim>\<open>:.2f\<close>: the exact value rounded to two decimals (ties to
  even), a minus sign for a negative value, the integer part and two fraction digits.
\<close>

definition digit_char :: "nat \<Rightarrow> char" where
  "digit_char n = ''0123456789'' ! (n mod 10)"

fun str_nat :: "nat \<Rightarrow> string" where
  "str_nat n = (if n < 10 then [digit_char n] else str_nat (n div 10) @ [digit_char (n mod 10)])"

declare str_nat.simps [simp del]

definition format_2f :: "real \<Rightarrow> string" where
  "format_2f x =
     (let n = nat \<bar>round_half_even (x * 100)\<bar>
      in (if x < 0 then ''-'' else []) @ str_nat (n div 100) @ ''.''
           @ [digit_char (n mod 100 div 10), digit_char (n mod 10)])"

subsection \<open>The slice builder\<close>

record pie_path =
  d :: string
  color :: string
  label_x :: real
  label_y :: real
  label :: string
  "value" :: real
  pct :: real

definition default_colors :: "string list" where
  "default_colors = [''#3A9AD9'', ''#FF6B78'', ''#FFD166'', ''#6BCB77'', ''#8E63FF'', ''#FF9F80'']"

text \<open>\<^verbatim>\<open>if not colors\<close>: the default palette replaces \<^verbatim>\<open>None\<close> and the empty list.\<close>

definition palette :: "string list option \<Rightarrow> string list" where
  "palette colors = (case colors of None \<Rightarrow> default_colors
                     | Some cs \<Rightarrow> if cs = [] then default_colors else cs)"

definition radians :: "real \<Rightarrow> real" where
  "radians x = x * pi / 180"

text \<open>The angular span of a slice, \<^verbatim>\<open>angle = (value / total) * 360.0\<close>.\<close>

definition slice_angle :: "real \<Rightarrow> slice \<Rightarrow> real" where
  "slice_angle tot s = (slice.value s / tot) * 360"

text \<open>
  The path string \<^verbatim>\<open>d\<close> of a slice that starts at \<open>start_angle\<close> and spans \<open>angle\<close>.
\<close>

definition path_d :: "real \<Rightarrow> real \<Rightarrow> real \<Rightarrow> real \<Rightarrow> real \<Rightarrow> string" where
  "path_d cx cy r start_angle angle =
     (let end_angle = start_angle + angle;
          start_rad = radians (start_angle - 90);
          end_rad = radians (end_angle - 90);
          x1 = cx + r * cos start_rad;
          y1 = cy + r * sin start_rad;
          x2 = cx + r * cos end_rad;
          y2 = cy + r * sin end_rad;
          large_arc = (if 180 < angle then ''1'' else ''0'')
      in ''M '' @ format_2f cx @ '','' @ format_2f cy
         @ '' L '' @ format_2f x1 @ '','' @ format_2f y1
         @ '' A '' @ format_2f r @ '','' @ format_2f r
         @ '' 0 '' @ large_arc @ '',1 '' @ format_2f x2 @ '','' @ format_2f y2 @ '' Z'')"

text \<open>
  The dict appended for a slice of positive value: \<open>i\<close> is its index in the input and
  \<open>start_angle\<close> the running start angle.
\<close>

definition pie_entry ::
  "real \<Rightarrow> real \<Rightarrow> real \<Rightarrow> real \<Rightarrow> string list \<Rightarrow> nat \<Rightarrow> real \<Rightarrow> slice \<Rightarrow> pie_path" where
  "pie_entry tot cx cy r colors i start_angle s =
     (let v = slice.value s;
          angle = slice_angle tot s;
          mid_angle = start_angle + angle / 2;
          mid_rad = radians (mid_angle - 90);
          label_r = r * 0.62
      in \<lparr>d = path_d cx cy r start_angle angle,
          color = colors ! (i mod length colors),
          label_x = cx + label_r * cos mid_rad,
          label_y = cy + label_r * sin mid_rad,
          label = slice.category s,
          value = py_round v 2,
          pct = py_round ((v / tot) * 100) 2\<rparr>)"

record pie_state =
  paths :: "pie_path list"
  start_angle :: real

text \<open>One iteration of \<^verbatim>\<open>for i, s in enumerate(slices)\<close>.\<close>

definition pie_step ::
  "real \<Rightarrow> real \<Rightarrow> real \<Rightarrow> real \<Rightarrow> string list \<Rightarrow> nat \<Rightarrow> slice \<Rightarrow> pie_state \<Rightarrow> pie_state" where
  "pie_step tot cx cy r colors i s st =
     (if slice.value s \<le> 0 then st
      else \<lparr>paths = paths st @ [pie_entry tot cx cy r colors i (start_angle st) s],
            start_angle = start_angle st + slice_angle tot s\<rparr>)"

fun pie_loop ::
  "real \<Rightarrow> real \<Rightarrow> real \<Rightarrow> real \<Rightarrow> string list \<Rightarrow> nat \<Rightarrow> slice list \<Rightarrow> pie_state \<Rightarrow> pie_state" where
  "pie_loop tot cx cy r colors i [] st = st"
| "pie_loop tot cx cy r colors i (s # ss) st =
     pie_loop tot cx cy r colors (i + 1) ss (pie_step tot cx cy r colors i s st)"

definition make_pie_paths ::
  "slice list \<Rightarrow> real \<Rightarrow> real \<Rightarrow> real \<Rightarrow> real \<Rightarrow> string list option \<Rightarrow> pie_path list" where
  "make_pie_paths slices tot cx cy r colors =
     (if tot \<le> 0 then []
      else paths (pie_loop tot cx cy r (palette colors) 0 slices
                    \<lparr>paths = [], start_angle = 0\<rparr>))"

subsection \<open>Bar scaling of the SVG export\<close>

definition py_truediv :: "real \<Rightarrow> real \<Rightarrow> py_error + real" where
  "py_truediv a b = (if b = 0 then Inl ZeroDivisionError else Inr (a / b))"

fun max_bar_loop :: "comparison_row list \<Rightarrow> real \<Rightarrow> real" where
  "max_bar_loop [] max_bar_value = max_bar_value"
| "max_bar_loop (row # rows) max_bar_value =
     max_bar_loop rows (max max_bar_value (max (primary row) (compare row)))"

definition max_bar_value :: "comparison_row list \<Rightarrow> real \<Rightarrow> real \<Rightarrow> real" where
  "max_bar_value rows primary_total compare_total =
     (let m = max_bar_loop rows 0
      in if m = 0 then max primary_total (max compare_total 1) else m)"

definition vg_width :: int where
  "vg_width = 1200"

definition left_padding :: int where
  "left_padding = 320"

definition bar_max_width :: int where
  "bar_max_width = vg_width - left_padding - (vg_width div 3) - 40"

text \<open>\<^verbatim>\<open>(v / max_bar_value) * bar_max_width if max_bar_value else 0\<close>\<close>

definition bar_width :: "real \<Rightarrow> real \<Rightarrow> py_error + real" where
  "bar_width v mbv =
     (if mbv \<noteq> 0
      then (case py_truediv v mbv of Inl e \<Rightarrow> Inl e | Inr q \<Rightarrow> Inr (q * of_int bar_max_width))
      else Inr 0)"

text \<open>The widths \<open>(p_w, c_w)\<close> of the bar pairs, row by row.\<close>

fun bar_widths :: "comparison_row list \<Rightarrow> real \<Rightarrow> py_error + (real \<times> real) list" where
  "bar_widths [] mbv = Inr []"
| "bar_widths (row # rows) mbv =
     (case bar_width (primary row) mbv of
        Inl e \<Rightarrow> Inl e
      | Inr p_w \<Rightarrow>
          (case bar_width (compare row) mbv of
             Inl e \<Rightarrow> Inl e
           | Inr c_w \<Rightarrow>
               (case bar_widths rows mbv of
                  Inl e \<Rightarrow> Inl e
                | Inr ws \<Rightarrow> Inr ((p_w, c_w) # ws))))"

subsection \<open>Parsing a date with the format \<^verbatim>\<open>%Y-%m-%d\<close>\<close>

text \<open>
  \<^verbatim>\<open>datetime.strptime(s, '%Y-%m-%d').date()\<close>, with \<open>None\<close> for the ValueError it raises.
  The library matches \<^verbatim>\<open>(\d\d\d\d)-(1[0-2]|0[1-9]|[1-9])-(3[0-1]|[1-2]\d|0[1-9]|[1-9]| [1-9])\<close>
  at the start of the string, refuses unconverted data after the match, and builds the
  date, which refuses a day that the month does not have. The alternatives are tried in
  this order. Characters are the 8-bit characters of \<open>string\<close>, whose only decimal digits
  are \<open>0\<close> to \<open>9\<close>.
\<close>

definition is_digit :: "char \<Rightarrow> bool" where
  "is_digit c = (CHR ''0'' \<le> c \<and> c \<le> CHR ''9'')"

definition is_digit19 :: "char \<Rightarrow> bool" where
  "is_digit19 c = (CHR ''1'' \<le> c \<and> c \<le> CHR ''9'')"

definition digit_val :: "char \<Rightarrow> int" where
  "digit_val c = of_char c - 48"

fun match_month :: "string \<Rightarrow> (int \<times> string) option" where
  "match_month (a # b # rest) =
     (if a = CHR ''1'' \<and> CHR ''0'' \<le> b \<and> b \<le> CHR ''2'' then Some (10 + digit_val b, rest)
      else if a = CHR ''0'' \<and> is_digit19 b then Some (digit_val b, rest)
      else if is_digit19 a then Some (digit_val a, b # rest)
      else None)"
| "match_month [a] = (if is_digit19 a then Some (digit_val a, []) else None)"
| "match_month [] = None"

fun match_day :: "string \<Rightarrow> (int \<times> string) option" where
  "match_day (a # b # rest) =
     (if a = CHR ''3'' \<and> CHR ''0'' \<le> b \<and> b \<le> CHR ''1'' then Some (30 + digit_val b, rest)
      else if CHR ''1'' \<le> a \<and> a \<le> CHR ''2'' \<and> is_digit b
        then Some (10 * digit_val a + digit_val b, rest)
      else if a = CHR ''0'' \<and> is_digit19 b then Some (digit_val b, rest)
      else if is_digit19 a then Some (digit_val a, b # rest)
      else if a = CHR '' '' \<and> is_digit19 b then Some (digit_val b, rest)
      else None)"
| "match_day [a] = (if is_digit19 a then Some (digit_val a, []) else None)"
| "match_day [] = None"

fun strptime_ymd :: "string \<Rightarrow> pydate option" where
  "strptime_ymd (y1 # y2 # y3 # y4 # dash # rest) =
     (if is_digit y1 \<and> is_digit y2 \<and> is_digit y3 \<and> is_digit y4 \<and> dash = CHR ''-''
      then (case match_month rest of
              Some (m, dash' # rest') \<Rightarrow>
                (if dash' = CHR ''-''
                 then (case match_day rest' of
                         Some (dd, []) \<Rightarrow>
                           (case py_date (1000 * digit_val y1 + 100 * digit_val y2
                                            + 10 * digit_val y3 + digit_val y4) m dd of
                              Inr dt \<Rightarrow> Some dt
                            | Inl e \<Rightarrow> None)
                       | _ \<Rightarrow> None)
                 else None)
            | _ \<Rightarrow> None)
      else None)"
| "strptime_ymd s = None"

subsection \<open>Creating and editing expenses\<close>

text \<open>
  A request to \<^verbatim>\<open>/add\<close> or \<^verbatim>\<open>/edit/<id>\<close>: whether the session holds a user, the
  method, and the fields of \<^verbatim>\<open>request.form\<close> (\<open>None\<close> for a missing field). The table
  of expenses is the state; a handler returns its response and the table after the
  commit. \<^verbatim>\<open>float(amount)\<close> is the parameter \<open>py_float\<close>, with \<open>None\<close> for the ValueError
  it raises, and \<open>today\<close> is \<^verbatim>\<open>datetime.utcnow().date()\<close>.
\<close>

datatype http_method = GET | POST

datatype response = Redirect string | Render string

record form_request =
  logged_in :: bool
  http_method :: http_method
  form_title :: "string option"
  form_amount :: "string option"
  form_category :: "string option"
  form_date :: "string option"

definition next_id :: "expense list \<Rightarrow> nat" where
  "next_id table = Suc (fold max (map id' table) 0)"

definition add_expense ::
  "(string \<Rightarrow> real option) \<Rightarrow> pydate \<Rightarrow> form_request \<Rightarrow> expense list
     \<Rightarrow> py_error + response \<times> expense list" where
  "add_expense py_float today req table =
     (if \<not> logged_in req then Inr (Redirect ''login'', table)
      else if http_method req = POST then
        (case form_title req of
           None \<Rightarrow> Inl BadRequestKeyError
         | Some t \<Rightarrow>
        (case form_amount req of
           None \<Rightarrow> Inl BadRequestKeyError
         | Some am \<Rightarrow>
        (case form_category req of
           None \<Rightarrow> Inl BadRequestKeyError
         | Some c \<Rightarrow>
           (let date_str = (case form_date req of None \<Rightarrow> [] | Some s \<Rightarrow> s);
                date_val = (if date_str \<noteq> []
                            then (case strptime_ymd date_str of Some dt \<Rightarrow> dt | None \<Rightarrow> today)
                            else today)
            in if t = [] \<or> am = [] \<or> c = [] then Inr (Redirect ''add_expense'', table)
               else (case py_float am of
                       None \<Rightarrow> Inl ValueError
                     | Some a \<Rightarrow>
                         Inr (Redirect ''index'',
                              table @ [\<lparr>id' = next_id table, title = t, amount = a,
                                        expense.category = c, date = date_val,
                                        user_id = None\<rparr>]))))))
      else Inr (Render ''add_edit.html'', table))"

text \<open>The commit of an edit writes the edited row back in the place of the row it was read from.\<close>

fun store_expense :: "nat \<Rightarrow> expense \<Rightarrow> expense list \<Rightarrow> expense list" where
  "store_expense expense_id row [] = []"
| "store_expense expense_id row (e # es) =
     (if id' e = expense_id then row # es else e # store_expense expense_id row es)"

definition edit_expense ::
  "(string \<Rightarrow> real option) \<Rightarrow> form_request \<Rightarrow> nat \<Rightarrow> expense list
     \<Rightarrow> py_error + response \<times> expense list" where
  "edit_expense py_float req expense_id table =
     (if \<not> logged_in req then Inr (Redirect ''login'', table)
      else (case find (\<lambda>e. id' e = expense_id) table of
              None \<Rightarrow> Inl NotFound
            | Some expense \<Rightarrow>
        if http_method req = POST then
        (case form_title req of
           None \<Rightarrow> Inl BadRequestKeyError
         | Some t \<Rightarrow>
        (case form_amount req of
           None \<Rightarrow> Inl BadRequestKeyError
         | Some am \<Rightarrow>
        (case py_float am of
           None \<Rightarrow> Inl ValueError
         | Some a \<Rightarrow>
        (case form_category req of
           None \<Rightarrow> Inl BadRequestKeyError
         | Some c \<Rightarrow>
           (let date_str = (case form_date req of None \<Rightarrow> [] | Some s \<Rightarrow> s);
                new_date = (if date_str \<noteq> []
                            then (case strptime_ymd date_str of
                                    Some dt \<Rightarrow> dt
                                  | None \<Rightarrow> date expense)
                            else date expense)
            in Inr (Redirect ''index'',
                    store_expense expense_id
                      (expense\<lparr>title := t, amount := a, expense.category := c,
                               date := new_date\<rparr>) table))))))
        else Inr (Render ''add_edit.html'', table)))"

subsection \<open>The slices the loop emits\<close>

text \<open>
  The input slices of positive value, in input order, each with its index in the input:
  the pairs \<^verbatim>\<open>(i, s)\<close> of \<^verbatim>\<open>enumerate(slices)\<close> that the test \<^verbatim>\<open>value <= 0\<close> does not skip.
\<close>

definition emitted :: "nat \<Rightarrow> slice list \<Rightarrow> (nat \<times> slice) list" where
  "emitted i slices = filter (\<lambda>(j, s). 0 < slice.value s) (enumerate i slices)"

section \<open>Properties\<close>

subsection \<open>Dicts\<close>

lemma dict_get_dict_set:
  "dict_get (dict_set dct k v) k' dflt = (if k' = k then v else dict_get dct k' dflt)"
  by (induction dct) auto

lemma set_keys_dict_set: "set (dict_keys (dict_set dct k v)) = insert k (set (dict_keys dct))"
proof (induction dct)
  case Nil
  show ?case by (simp add: dict_keys_def)
next
  case (Cons kv dct)
  obtain k' v' where kv: "kv = (k', v')" by (cases kv)
  from Cons.IH show ?case
    by (cases "k' = k") (simp_all add: kv dict_keys_def insert_commute)
qed

lemma distinct_keys_dict_set:
  "distinct (dict_keys dct) \<Longrightarrow> distinct (dict_keys (dict_set dct k v))"
proof (induction dct)
  case Nil
  show ?case by (simp add: dict_keys_def)
next
  case (Cons kv dct)
  obtain k' v' where kv: "kv = (k', v')" by (cases kv)
  from Cons.prems have d: "distinct (dict_keys dct)" and n: "k' \<notin> set (dict_keys dct)"
    by (simp_all add: kv dict_keys_def)
  have "set (dict_keys (dict_set dct k v)) = insert k (set (dict_keys dct))"
    by (rule set_keys_dict_set)
  with Cons.IH [OF d] n Cons.prems show ?case
    by (auto simp: kv dict_keys_def)
qed

subsection \<open>Evaluating floats\<close>

lemmas eval_double = to_double_def binade.simps pow2_def round_half_even_def float_add_def
  float_sub_def float_mul_def float_div_def float_round_def py_round_def

lemma doubles_of_decimals:
  "to_double (1 / 10) = 3602879701896397 / 2 ^ 55"
  "to_double (1 / 5) = 3602879701896397 / 2 ^ 54"
  "to_double (3 / 20) = 5404319552844595 / 2 ^ 55"
  by (simp_all add: eval_double)

lemma doubles_of_percentages:
  "to_double (1437 / 100) = 8089590830664253 / 2 ^ 49"
  "to_double (1438 / 100) = 8095220330198467 / 2 ^ 49"
  by (simp_all add: eval_double)

subsection \<open>Aggregator\<close>

lemma totals_loop_total:
  "snd (totals_loop es totals tot) = foldl float_add tot (map amount es)"
  by (induction es arbitrary: totals tot) simp_all

lemma totals_loop_value:
  "dict_get (fst (totals_loop es totals tot)) k 0 =
     foldl float_add (dict_get totals k 0)
       (map amount (filter (\<lambda>e. expense.category e = k) es))"
  by (induction es arbitrary: totals tot) (simp_all add: dict_get_dict_set)

lemma totals_loop_keys:
  "set (dict_keys (fst (totals_loop es totals tot))) =
     set (dict_keys totals) \<union> expense.category ` set es"
  by (induction es arbitrary: totals tot) (auto simp: set_keys_dict_set)

lemma totals_loop_distinct:
  "distinct (dict_keys totals) \<Longrightarrow> distinct (dict_keys (fst (totals_loop es totals tot)))"
  by (induction es arbitrary: totals tot) (simp_all add: distinct_keys_dict_set)

text \<open>
  C9 fails as stated: the total and the category values are float sums taken in different
  orders. For the amounts 0.1 (category A), 0.2 (category B) and 0.15 (category A) of one
  month the total is the double 0.45000000000000007, while the values 0.25 and 0.2 add
  up to another number, as reals and as floats.
\<close>

theorem total_differs_from_sum_of_values_counterexample:
  "totals_for_month
     [\<lparr>id' = 1, title = ''a'', amount = to_double (1 / 10), expense.category = ''A'',
       date = \<lparr>year = 2024, month = 3, day = 1\<rparr>, user_id = None\<rparr>,
      \<lparr>id' = 2, title = ''b'', amount = to_double (1 / 5), expense.category = ''B'',
       date = \<lparr>year = 2024, month = 3, day = 2\<rparr>, user_id = None\<rparr>,
      \<lparr>id' = 3, title = ''c'', amount = to_double (3 / 20), expense.category = ''A'',
       date = \<lparr>year = 2024, month = 3, day = 3\<rparr>, user_id = None\<rparr>] 3 2024
   = ([(''A'', 1 / 4), (''B'', 3602879701896397 / 2 ^ 54)], 4053239664633447 / 2 ^ 53)
   \<and> (4053239664633447 / 2 ^ 53 :: real) \<noteq> sum_list (dict_values [(''A'', 1 / 4), (''B'', 3602879701896397 / 2 ^ 54)])
   \<and> (4053239664633447 / 2 ^ 53 :: real) \<noteq> foldl float_add 0 (dict_values [(''A'', 1 / 4), (''B'', 3602879701896397 / 2 ^ 54)])"
  by (simp add: totals_for_month_def doubles_of_decimals dict_values_def eval_double)

text \<open>
  C9, amended. Each matching record's amount is accumulated once into the grand total
  and once into the value of its category, by float additions in the order of the
  records: the grand total is the left-to-right float sum of the amounts of all matching
  records; the keys of the map are the categories of the matching records, each once; and
  the value of every category is the left-to-right float sum of the amounts of the
  matching records of that category (0 for a category without records).
\<close>

theorem totals_accumulate_each_amount_once:
  "snd (totals_for_month table mth yr)
     = foldl float_add 0
         (map amount (filter (\<lambda>e. year (date e) = yr \<and> month (date e) = mth) table))
   \<and> distinct (dict_keys (fst (totals_for_month table mth yr)))
   \<and> set (dict_keys (fst (totals_for_month table mth yr)))
       = expense.category ` set (filter (\<lambda>e. year (date e) = yr \<and> month (date e) = mth) table)
   \<and> (\<forall>k. dict_get (fst (totals_for_month table mth yr)) k 0
          = foldl float_add 0
              (map amount (filter (\<lambda>e. expense.category e = k)
                 (filter (\<lambda>e. year (date e) = yr \<and> month (date e) = mth) table))))"
proof -
  let ?ms = "filter (\<lambda>e. year (date e) = yr \<and> month (date e) = mth) table"
  have "distinct (dict_keys (fst (totals_loop ?ms [] 0)))"
    by (rule totals_loop_distinct) (simp add: dict_keys_def)
  moreover have "set (dict_keys (fst (totals_loop ?ms [] 0))) = expense.category ` set ?ms"
    using totals_loop_keys [of ?ms "[]" 0] by (simp add: dict_keys_def)
  moreover have "dict_get (fst (totals_loop ?ms [] 0)) k 0
          = foldl float_add 0 (map amount (filter (\<lambda>e. expense.category e = k) ?ms))" for k
    by (simp add: totals_loop_value)
  ultimately show ?thesis
    unfolding totals_for_month_def by (simp add: totals_loop_total)
qed

theorem totals_accumulate_each_amount_once_witness:
  "totals_for_month
     [\<lparr>id' = 1, title = ''a'', amount = 100, expense.category = ''Food'',
       date = \<lparr>year = 2024, month = 3, day = 1\<rparr>, user_id = None\<rparr>,
      \<lparr>id' = 2, title = ''b'', amount = 50, expense.category = ''Travel'',
       date = \<lparr>year = 2024, month = 3, day = 2\<rparr>, user_id = None\<rparr>,
      \<lparr>id' = 3, title = ''c'', amount = 7, expense.category = ''Food'',
       date = \<lparr>year = 2024, month = 4, day = 3\<rparr>, user_id = None\<rparr>,
      \<lparr>id' = 4, title = ''d'', amount = 1 / 2, expense.category = ''Food'',
       date = \<lparr>year = 2024, month = 3, day = 9\<rparr>, user_id = None\<rparr>] 3 2024
   = ([(''Food'', 201 / 2), (''Travel'', 50)], 301 / 2)"
  using totals_accumulate_each_amount_once [of
     "[\<lparr>id' = 1, title = ''a'', amount = 100, expense.category = ''Food'',
       date = \<lparr>year = 2024, month = 3, day = 1\<rparr>, user_id = None\<rparr>,
      \<lparr>id' = 2, title = ''b'', amount = 50, expense.category = ''Travel'',
       date = \<lparr>year = 2024, month = 3, day = 2\<rparr>, user_id = None\<rparr>,
      \<lparr>id' = 3, title = ''c'', amount = 7, expense.category = ''Food'',
       date = \<lparr>year = 2024, month = 4, day = 3\<rparr>, user_id = None\<rparr>,
      \<lparr>id' = 4, title = ''d'', amount = 1 / 2, expense.category = ''Food'',
       date = \<lparr>year = 2024, month = 3, day = 9\<rparr>, user_id = None\<rparr>]" 3 2024]
  by (simp add: totals_for_month_def eval_double)

subsection \<open>Comparison rows\<close>

lemma comparison_entry_fields:
  "primary (comparison_entry pm cm cat) = float_round (dict_get pm cat 0) 2"
  "compare (comparison_entry pm cm cat) = float_round (dict_get cm cat 0) 2"
  "comparison_row.category (comparison_entry pm cm cat) = cat"
  "diff (comparison_entry pm cm cat) =
     float_round (float_sub (float_round (dict_get pm cat 0) 2) (float_round (dict_get cm cat 0) 2)) 2"
  by (simp_all add: comparison_entry_def Let_def)

lemma comparison_entry_pct:
  "pct_change (comparison_entry pm cm cat) =
     (if compare (comparison_entry pm cm cat) = 0
      then (if primary (comparison_entry pm cm cat) = 0 then PyNone else PyStr ''inf'')
      else PyFloat (float_round (float_mul (float_div (diff (comparison_entry pm cm cat))
                                   (compare (comparison_entry pm cm cat))) 100) 2))"
  by (simp add: comparison_entry_def Let_def)

lemma categories_sort_remdups:
  "categories pm cm = sort (remdups (dict_keys pm @ dict_keys cm))"
  by (simp only: categories_def sorted_list_of_set_sort_remdups)

lemma float_steps_183_160:
  "float_round 183 2 = 183"
  "float_round 160 2 = 160"
  "float_sub 183 160 = 23"
  "float_round 23 2 = 23"
  "float_div 23 160 = 5179139571476070 / 2 ^ 55"
  "float_mul (5179139571476070 / 2 ^ 55) 100 = 8092405580431359 / 2 ^ 49"
  "float_round (8092405580431359 / 2 ^ 49) 2 = to_double (1437 / 100)"
  by (simp_all add: eval_double)

lemma comparison_entry_183_160:
  "comparison_entry [(''Food'', 183)] [(''Food'', 160)] ''Food''
     = \<lparr>comparison_row.category = ''Food'', primary = 183, compare = 160, diff = 23,
        pct_change = PyFloat (to_double (1437 / 100))\<rparr>"
proof -
  have g: "dict_get [(''Food'', 183)] ''Food'' 0 = (183::real)"
    "dict_get [(''Food'', 160)] ''Food'' 0 = (160::real)"
    by simp_all
  show ?thesis
    by (simp only: comparison_entry_def Let_def g float_steps_183_160) simp
qed

lemma float_steps_scenario:
  "float_round 100 2 = 100"
  "float_round 80 2 = 80"
  "float_round 50 2 = 50"
  "float_round 0 2 = 0"
  "float_sub 100 80 = 20"
  "float_sub 50 0 = 50"
  "float_sub 0 0 = 0"
  "float_round 20 2 = 20"
  "float_div 20 80 = 1 / 4"
  "float_mul (1 / 4) 100 = 25"
  "float_round 25 2 = 25"
  by (simp_all add: eval_double)

lemma comparison_entries_scenario:
  "comparison_entry [(''Food'', 100), (''Travel'', 50), (''Bills'', 0)] [(''Food'', 80)] ''Food''
     = \<lparr>comparison_row.category = ''Food'', primary = 100, compare = 80, diff = 20, pct_change = PyFloat 25\<rparr>"
  "comparison_entry [(''Food'', 100), (''Travel'', 50), (''Bills'', 0)] [(''Food'', 80)] ''Travel''
     = \<lparr>comparison_row.category = ''Travel'', primary = 50, compare = 0, diff = 50, pct_change = PyStr ''inf''\<rparr>"
  "comparison_entry [(''Food'', 100), (''Travel'', 50), (''Bills'', 0)] [(''Food'', 80)] ''Bills''
     = \<lparr>comparison_row.category = ''Bills'', primary = 0, compare = 0, diff = 0, pct_change = PyNone\<rparr>"
proof -
  have g: "dict_get [(''Food'', 100), (''Travel'', 50), (''Bills'', 0)] ''Food'' 0 = (100::real)"
    "dict_get [(''Food'', 100), (''Travel'', 50), (''Bills'', 0)] ''Travel'' 0 = (50::real)"
    "dict_get [(''Food'', 100), (''Travel'', 50), (''Bills'', 0)] ''Bills'' 0 = (0::real)"
    "dict_get [(''Food'', 80)] ''Food'' 0 = (80::real)"
    "dict_get [(''Food'', 80)] ''Travel'' 0 = (0::real)"
    "dict_get [(''Food'', 80)] ''Bills'' 0 = (0::real)"
    by simp_all
  show "comparison_entry [(''Food'', 100), (''Travel'', 50), (''Bills'', 0)] [(''Food'', 80)] ''Food''
     = \<lparr>comparison_row.category = ''Food'', primary = 100, compare = 80, diff = 20, pct_change = PyFloat 25\<rparr>"
    by (simp only: comparison_entry_def Let_def g float_steps_scenario) simp
  show "comparison_entry [(''Food'', 100), (''Travel'', 50), (''Bills'', 0)] [(''Food'', 80)] ''Travel''
     = \<lparr>comparison_row.category = ''Travel'', primary = 50, compare = 0, diff = 50, pct_change = PyStr ''inf''\<rparr>"
    by (simp only: comparison_entry_def Let_def g float_steps_scenario) simp
  show "comparison_entry [(''Food'', 100), (''Travel'', 50), (''Bills'', 0)] [(''Food'', 80)] ''Bills''
     = \<lparr>comparison_row.category = ''Bills'', primary = 0, compare = 0, diff = 0, pct_change = PyNone\<rparr>"
    by (simp only: comparison_entry_def Let_def g float_steps_scenario) simp
qed

text \<open>
  C1 fails as stated: the percent change is computed in floats. For \<open>p = 183\<close> and
  \<open>c = 160\<close> the quotient \<open>(p - c) / c * 100\<close> is 14.375, which rounds to 14.38, but the
  float product is just below 14.375 and the row holds the double 14.37.
\<close>

theorem pct_change_float_counterexample:
  "comparison [(''Food'', 183)] [(''Food'', 160)]
     = [\<lparr>comparison_row.category = ''Food'', primary = 183, compare = 160, diff = 23,
         pct_change = PyFloat (to_double (1437 / 100))\<rparr>]
   \<and> py_round ((183 - 160) / 160 * 100) 2 = 1438 / 100
   \<and> PyFloat (to_double (1437 / 100)) \<noteq> PyFloat (1438 / 100)
   \<and> PyFloat (to_double (1437 / 100)) \<noteq> PyFloat (to_double (1438 / 100))"
proof -
  have "categories [(''Food'', 183)] [(''Food'', 160)] = [''Food'']"
    by (simp add: categories_sort_remdups dict_keys_def)
  then have "comparison [(''Food'', 183)] [(''Food'', 160)]
     = [\<lparr>comparison_row.category = ''Food'', primary = 183, compare = 160, diff = 23,
         pct_change = PyFloat (to_double (1437 / 100))\<rparr>]"
    by (simp add: comparison_def comparison_entry_183_160)
  moreover have "py_round ((183 - 160) / 160 * 100) 2 = 1438 / 100"
    by (simp add: py_round_def round_half_even_def)
  moreover have "PyFloat (to_double (1437 / 100)) \<noteq> PyFloat (1438 / 100)"
    "PyFloat (to_double (1437 / 100)) \<noteq> PyFloat (to_double (1438 / 100))"
    by (simp_all only: doubles_of_percentages) simp_all
  ultimately show ?thesis
    by (simp only: simp_thms)
qed

text \<open>
  C1, amended. Every row of the comparison holds the two periods' category totals rounded
  to two decimals, \<open>p = primary r\<close> and \<open>c = compare r\<close>, and their rounded float
  difference \<open>diff r\<close>. If \<open>c = 0\<close> and \<open>p = 0\<close> the percent change is \<^verbatim>\<open>None\<close>; if
  \<open>c = 0\<close> and \<open>p \<noteq> 0\<close> it is the string sentinel \<^verbatim>\<open>"inf"\<close>, which is no float;
  otherwise it is the float \<^verbatim>\<open>round((diff / c) * 100, 2)\<close>, every operation rounded to the
  nearest double.
\<close>

theorem comparison_pct_change:
  assumes "r \<in> set (comparison primary_totals_map compare_totals_map)"
  shows "primary r = float_round (dict_get primary_totals_map (comparison_row.category r) 0) 2
       \<and> compare r = float_round (dict_get compare_totals_map (comparison_row.category r) 0) 2
       \<and> diff r = float_round (float_sub (primary r) (compare r)) 2
       \<and> (compare r = 0 \<and> primary r = 0 \<longrightarrow> pct_change r = PyNone)
       \<and> (compare r = 0 \<and> primary r \<noteq> 0 \<longrightarrow>
            pct_change r = PyStr ''inf'' \<and> (\<forall>x. pct_change r \<noteq> PyFloat x))
       \<and> (compare r \<noteq> 0 \<longrightarrow>
            pct_change r =
              PyFloat (float_round (float_mul (float_div (diff r) (compare r)) 100) 2))"
proof -
  from assms obtain cat where r: "r = comparison_entry primary_totals_map compare_totals_map cat"
    by (auto simp: comparison_def)
  show ?thesis
    unfolding r
    by (simp add: comparison_entry_fields
          comparison_entry_pct [of primary_totals_map compare_totals_map cat])
qed

theorem comparison_pct_change_witness:
  "comparison [(''Food'', 100), (''Travel'', 50), (''Bills'', 0)] [(''Food'', 80)]
     = [\<lparr>comparison_row.category = ''Bills'', primary = 0, compare = 0, diff = 0, pct_change = PyNone\<rparr>,
        \<lparr>comparison_row.category = ''Food'', primary = 100, compare = 80, diff = 20, pct_change = PyFloat 25\<rparr>,
        \<lparr>comparison_row.category = ''Travel'', primary = 50, compare = 0, diff = 50, pct_change = PyStr ''inf''\<rparr>]
   \<and> pct_change \<lparr>comparison_row.category = ''Food'', primary = 100, compare = 80, diff = 20, pct_change = PyFloat 25\<rparr>
       = PyFloat (float_round (float_mul (float_div 20 80) 100) 2)"
proof -
  have c: "categories [(''Food'', 100), (''Travel'', 50), (''Bills'', 0)] [(''Food'', 80)]
             = [''Bills'', ''Food'', ''Travel'']"
    by (simp add: categories_sort_remdups dict_keys_def)
  have rows: "comparison [(''Food'', 100), (''Travel'', 50), (''Bills'', 0)] [(''Food'', 80)]
     = [\<lparr>comparison_row.category = ''Bills'', primary = 0, compare = 0, diff = 0, pct_change = PyNone\<rparr>,
        \<lparr>comparison_row.category = ''Food'', primary = 100, compare = 80, diff = 20, pct_change = PyFloat 25\<rparr>,
        \<lparr>comparison_row.category = ''Travel'', primary = 50, compare = 0, diff = 50, pct_change = PyStr ''inf''\<rparr>]"
    by (simp add: comparison_def c comparison_entries_scenario)
  have mem: "\<lparr>comparison_row.category = ''Food'', primary = 100, compare = 80, diff = 20, pct_change = PyFloat 25\<rparr>
      \<in> set (comparison [(''Food'', 100), (''Travel'', 50), (''Bills'', 0)] [(''Food'', 80)])"
    by (simp only: rows) simp
  from comparison_pct_change [OF mem] rows show ?thesis
    by simp
qed

text \<open>
  C7. The categories of the comparison rows are the union of the keys of the two totals
  maps, in strictly ascending lexicographic order, so each category appears once.
\<close>

theorem comparison_categories:
  "map comparison_row.category (comparison primary_totals_map compare_totals_map)
     = categories primary_totals_map compare_totals_map
   \<and> set (categories primary_totals_map compare_totals_map)
     = set (dict_keys primary_totals_map) \<union> set (dict_keys compare_totals_map)
   \<and> sorted_wrt (<) (categories primary_totals_map compare_totals_map)"
  by (simp add: comparison_def categories_def comp_def comparison_entry_fields
        strict_sorted_iff)

subsection \<open>The default comparison period\<close>

text \<open>
  C10 fails as stated: for the primary period month 1 of year 1 the subtraction of one
  day leaves the range of dates and the handler raises.
\<close>

theorem default_compare_period_counterexample:
  "resolve_periods \<lparr>year = 2026, month = 11, day = 3\<rparr>
     \<lparr>arg_month = Some 1, arg_year = Some 1, arg_compare_month = None, arg_compare_year = None\<rparr>
   = Inl OverflowError"
  by (simp add: resolve_periods_def previous_period_def py_date_def date_minus_one_day_def days_in_month_def)

text \<open>
  C10, amended. When \<^verbatim>\<open>compare_month\<close> or \<^verbatim>\<open>compare_year\<close> is absent and the primary
  period is a month 1 to 12 of a year 1 to 9999 other than month 1 of year 1, the
  comparison period is the preceding calendar month: \<open>(month - 1, year)\<close> when
  \<open>month \<ge> 2\<close> and \<open>(12, year - 1)\<close> when \<open>month = 1\<close>.
\<close>

theorem default_compare_period:
  assumes "arg_compare_month a = None \<or> arg_compare_year a = None"
    and "mth = (case arg_month a of None \<Rightarrow> month today | Some m \<Rightarrow> m)"
    and "yr = (case arg_year a of None \<Rightarrow> year today | Some y \<Rightarrow> y)"
    and "1 \<le> mth" "mth \<le> 12" "1 \<le> yr" "yr \<le> 9999" "\<not> (mth = 1 \<and> yr = 1)"
  shows "resolve_periods today a =
           Inr \<lparr>p_month = mth, p_year = yr,
                compare_month = (if 2 \<le> mth then mth - 1 else 12),
                compare_year = (if 2 \<le> mth then yr else yr - 1)\<rparr>"
proof -
  have d: "1 \<le> days_in_month yr mth"
    by (simp add: days_in_month_def)
  have "previous_period mth yr = Inr (if 2 \<le> mth then (mth - 1, yr) else (12, yr - 1))"
    using assms(4-8) d by (auto simp: previous_period_def py_date_def date_minus_one_day_def)
  then show ?thesis
    using assms(1-3) by (auto simp: resolve_periods_def Let_def split: option.splits)
qed

theorem default_compare_period_witness:
  "resolve_periods \<lparr>year = 2026, month = 11, day = 3\<rparr>
     \<lparr>arg_month = Some 1, arg_year = Some 2024, arg_compare_month = None, arg_compare_year = None\<rparr>
   = Inr \<lparr>p_month = 1, p_year = 2024, compare_month = 12, compare_year = 2023\<rparr>
   \<and> resolve_periods \<lparr>year = 2026, month = 11, day = 3\<rparr>
     \<lparr>arg_month = None, arg_year = None, arg_compare_month = Some 5, arg_compare_year = None\<rparr>
   = Inr \<lparr>p_month = 11, p_year = 2026, compare_month = 10, compare_year = 2026\<rparr>"
  using default_compare_period [of "\<lparr>arg_month = Some 1, arg_year = Some 2024, arg_compare_month = None, arg_compare_year = None\<rparr>"
          1 "\<lparr>year = 2026, month = 11, day = 3\<rparr>" 2024]
    default_compare_period [of "\<lparr>arg_month = None, arg_year = None, arg_compare_month = Some 5, arg_compare_year = None\<rparr>"
          11 "\<lparr>year = 2026, month = 11, day = 3\<rparr>" 2026]
  by simp

subsection \<open>The loop of the slice builder\<close>

lemma emitted_Nil: "emitted i [] = []"
  by (simp add: emitted_def)

lemma emitted_Cons:
  "emitted i (s # ss) = (if 0 < slice.value s then (i, s) # emitted (Suc i) ss else emitted (Suc i) ss)"
  by (simp add: emitted_def)

lemma map_snd_emitted: "map snd (emitted i slices) = filter (\<lambda>s. 0 < slice.value s) slices"
  by (induction slices arbitrary: i) (simp_all add: emitted_Nil emitted_Cons)

lemma pie_loop_paths:
  "paths (pie_loop tot cx cy r colors i slices st) =
     paths st @
     map (\<lambda>k. pie_entry tot cx cy r colors (fst (emitted i slices ! k))
                (start_angle st + sum_list (map (slice_angle tot \<circ> snd) (take k (emitted i slices))))
                (snd (emitted i slices ! k)))
       [0..<length (emitted i slices)]"
proof (induction slices arbitrary: i st)
  case Nil
  show ?case by (simp add: emitted_Nil)
next
  case (Cons s ss)
  show ?case
  proof (cases "0 < slice.value s")
    case False
    then have "pie_step tot cx cy r colors i s st = st"
      by (simp add: pie_step_def)
    with False show ?thesis
      by (simp add: Cons.IH emitted_Cons)
  next
    case True
    then have step: "pie_step tot cx cy r colors i s st =
        \<lparr>paths = paths st @ [pie_entry tot cx cy r colors i (start_angle st) s],
         start_angle = start_angle st + slice_angle tot s\<rparr>"
      by (simp add: pie_step_def)
    have shift: "[Suc 0..<Suc n] = map Suc [0..<n]" for n
      by (simp only: map_Suc_upt)
    show ?thesis
      using True
      by (simp add: Cons.IH step emitted_Cons upt_conv_Cons shift add.assoc comp_def
            del: upt_Suc map_Suc_upt)
  qed
qed

lemma pie_loop_start_angle:
  "start_angle (pie_loop tot cx cy r colors i slices st) =
     start_angle st + sum_list (map (slice_angle tot) (filter (\<lambda>s. 0 < slice.value s) slices))"
  by (induction slices arbitrary: i st) (simp_all add: pie_step_def)

lemma sum_positive_values:
  "\<forall>s \<in> set slices. 0 \<le> slice.value s \<Longrightarrow>
     sum_list (map slice.value (filter (\<lambda>s. 0 < slice.value s) slices)) = sum_list (map slice.value slices)"
  by (induction slices) auto

lemma sum_slice_angle:
  "sum_list (map (slice_angle tot) xs) = sum_list (map slice.value xs) / tot * 360"
  by (induction xs) (simp_all add: slice_angle_def add_divide_distrib distrib_right)

lemma make_pie_paths_nth:
  assumes "0 < tot" and "k < length (emitted 0 slices)"
  shows "make_pie_paths slices tot cx cy r colors ! k =
           pie_entry tot cx cy r (palette colors) (fst (emitted 0 slices ! k))
             (sum_list (map (slice_angle tot \<circ> snd) (take k (emitted 0 slices))))
             (snd (emitted 0 slices ! k))"
  using assms by (simp add: make_pie_paths_def pie_loop_paths)

lemma make_pie_paths_length:
  "0 < tot \<Longrightarrow> length (make_pie_paths slices tot cx cy r colors) = length (emitted 0 slices)"
  by (simp add: make_pie_paths_def pie_loop_paths)

lemmas eval_pie = make_pie_paths_def pie_step_def pie_entry_def palette_def default_colors_def
  emitted_def enumerate_eq_zip slice_angle_def Let_def

subsection \<open>The slice builder\<close>

text \<open>
  C2. For slices of non-negative value whose sum is the total, with a positive total:
  the emitted slices are the input slices of positive value in input order; the slice
  emitted at position \<open>k\<close> is built at the running start angle that is the sum of the spans
  of the slices emitted before it, so the angle starts at 0 and advances by each emitted
  slice's span \<open>value / total * 360\<close>; the loop ends at the sum of all emitted spans, and
  that sum is 360 degrees. Floats are exact reals here, so the sum is exact.
\<close>

theorem pie_slices_partition_circle:
  assumes "0 < tot"
    and "\<forall>s \<in> set slices. 0 \<le> slice.value s"
    and "sum_list (map slice.value slices) = tot"
  shows "map label (make_pie_paths slices tot cx cy r colors)
           = map slice.category (filter (\<lambda>s. 0 < slice.value s) slices)
       \<and> (\<forall>k < length (emitted 0 slices).
             make_pie_paths slices tot cx cy r colors ! k =
               pie_entry tot cx cy r (palette colors) (fst (emitted 0 slices ! k))
                 (sum_list (map (slice_angle tot \<circ> snd) (take k (emitted 0 slices))))
                 (snd (emitted 0 slices ! k)))
       \<and> start_angle (pie_loop tot cx cy r (palette colors) 0 slices \<lparr>paths = [], start_angle = 0\<rparr>)
           = sum_list (map (slice_angle tot \<circ> snd) (emitted 0 slices))
       \<and> sum_list (map (slice_angle tot \<circ> snd) (emitted 0 slices)) = 360"
proof -
  let ?E = "emitted 0 slices"
  have labels: "map label (make_pie_paths slices tot cx cy r colors)
                  = map slice.category (filter (\<lambda>s. 0 < slice.value s) slices)"
  proof -
    have "map label (make_pie_paths slices tot cx cy r colors) = map (slice.category \<circ> snd) ?E"
      using assms(1)
      by (auto simp: make_pie_paths_def pie_loop_paths pie_entry_def Let_def intro!: nth_equalityI)
    also have "\<dots> = map slice.category (map snd ?E)"
      by simp
    finally show ?thesis
      by (simp only: map_snd_emitted)
  qed
  have spans: "sum_list (map (slice_angle tot \<circ> snd) ?E)
                 = sum_list (map (slice_angle tot) (filter (\<lambda>s. 0 < slice.value s) slices))"
    using map_snd_emitted [of 0 slices] by (metis map_map)
  have total: "sum_list (map (slice_angle tot) (filter (\<lambda>s. 0 < slice.value s) slices)) = 360"
    using assms by (simp add: sum_slice_angle sum_positive_values)
  show ?thesis
    using assms(1) labels spans total
    by (simp add: make_pie_paths_nth pie_loop_start_angle)
qed

theorem pie_slices_partition_circle_witness:
  "map label (make_pie_paths [\<lparr>slice.category = ''Food'', value = 100\<rparr>,
       \<lparr>slice.category = ''Travel'', value = 0\<rparr>, \<lparr>slice.category = ''Bills'', value = 50\<rparr>]
       150 120 120 100 None) = [''Food'', ''Bills'']
   \<and> map (slice_angle 150 \<circ> snd) (emitted 0 [\<lparr>slice.category = ''Food'', value = 100\<rparr>,
       \<lparr>slice.category = ''Travel'', value = 0\<rparr>, \<lparr>slice.category = ''Bills'', value = 50\<rparr>])
      = [240, 120]"
  using pie_slices_partition_circle [of 150 "[\<lparr>slice.category = ''Food'', value = 100\<rparr>,
       \<lparr>slice.category = ''Travel'', value = 0\<rparr>, \<lparr>slice.category = ''Bills'', value = 50\<rparr>]"
       120 120 100 None]
  by (simp add: eval_pie)

text \<open>
  C3. If the total is not positive the result is the empty list, whatever the slices.
  Otherwise the emitted slices are exactly the input slices of positive value, with
  their category and their value rounded to two decimals; an iteration on a slice of
  value at most 0 leaves the loop state, and so the running start angle, unchanged.
\<close>

theorem pie_slices_emitted:
  "(tot \<le> 0 \<longrightarrow> make_pie_paths slices tot cx cy r colors = [])
   \<and> (0 < tot \<longrightarrow>
        map (\<lambda>p. (label p, pie_path.value p)) (make_pie_paths slices tot cx cy r colors)
          = map (\<lambda>s. (slice.category s, py_round (slice.value s) 2))
              (filter (\<lambda>s. 0 < slice.value s) slices))
   \<and> (slice.value s \<le> 0 \<longrightarrow> pie_step tot cx cy r cols i s st = st)"
proof -
  have "map (\<lambda>p. (label p, pie_path.value p)) (make_pie_paths slices tot cx cy r colors)
          = map (\<lambda>s. (slice.category s, py_round (slice.value s) 2))
              (filter (\<lambda>s. 0 < slice.value s) slices)" if "0 < tot"
  proof -
    have "map (\<lambda>p. (label p, pie_path.value p)) (make_pie_paths slices tot cx cy r colors)
            = map ((\<lambda>s. (slice.category s, py_round (slice.value s) 2)) \<circ> snd) (emitted 0 slices)"
      using that
      by (auto simp: make_pie_paths_def pie_loop_paths pie_entry_def Let_def intro!: nth_equalityI)
    also have "\<dots> = map (\<lambda>s. (slice.category s, py_round (slice.value s) 2)) (map snd (emitted 0 slices))"
      by simp
    finally show ?thesis
      by (simp only: map_snd_emitted)
  qed
  then show ?thesis
    by (simp add: make_pie_paths_def pie_step_def)
qed

theorem pie_slices_emitted_witness:
  "make_pie_paths [\<lparr>slice.category = ''Food'', value = 100\<rparr>] 0 120 120 100 None = []
   \<and> map (\<lambda>p. (label p, pie_path.value p)) (make_pie_paths [\<lparr>slice.category = ''Food'', value = 100\<rparr>,
       \<lparr>slice.category = ''Travel'', value = 0\<rparr>, \<lparr>slice.category = ''Bills'', value = 50\<rparr>]
       150 120 120 100 None) = [(''Food'', 100), (''Bills'', 50)]
   \<and> pie_step 150 120 120 100 default_colors 1 \<lparr>slice.category = ''Travel'', value = 0\<rparr>
        \<lparr>paths = [], start_angle = 240\<rparr> = \<lparr>paths = [], start_angle = 240\<rparr>"
  using pie_slices_emitted [of 0 "[\<lparr>slice.category = ''Food'', value = 100\<rparr>]" 120 120 100 None
          "\<lparr>slice.category = ''Travel'', value = 0\<rparr>" default_colors 1 "\<lparr>paths = [], start_angle = 240\<rparr>"]
    pie_slices_emitted [of 150 "[\<lparr>slice.category = ''Food'', value = 100\<rparr>,
       \<lparr>slice.category = ''Travel'', value = 0\<rparr>, \<lparr>slice.category = ''Bills'', value = 50\<rparr>]" 120 120 100 None
       "\<lparr>slice.category = ''Travel'', value = 0\<rparr>" default_colors 1 "\<lparr>paths = [], start_angle = 240\<rparr>"]
  by (simp add: py_round_def round_half_even_def)

text \<open>
  C4 fails as stated: the colour index is the index of \<^verbatim>\<open>enumerate\<close>, which also counts
  the skipped slices. With Food 100, Travel 0, Bills 50 the second emitted slice is
  painted with the palette colour at index 2, not at index 1.
\<close>

theorem palette_slot_counterexample:
  "color (make_pie_paths [\<lparr>slice.category = ''Food'', value = 100\<rparr>,
       \<lparr>slice.category = ''Travel'', value = 0\<rparr>, \<lparr>slice.category = ''Bills'', value = 50\<rparr>]
       150 120 120 100 None ! 1) = ''#FFD166''
   \<and> color (make_pie_paths [\<lparr>slice.category = ''Food'', value = 100\<rparr>,
       \<lparr>slice.category = ''Travel'', value = 0\<rparr>, \<lparr>slice.category = ''Bills'', value = 50\<rparr>]
       150 120 120 100 None ! 1) \<noteq> default_colors ! (1 mod length default_colors)"
  by (simp add: eval_pie)

text \<open>
  C4, amended. Every emitted slice receives the palette colour at its index in the input
  list (skipped slices counted) modulo the length of the palette; the palette is never
  empty and defaults to six colours.
\<close>

theorem palette_by_input_index:
  assumes "0 < tot"
  shows "map color (make_pie_paths slices tot cx cy r colors)
           = map (\<lambda>(i, s). palette colors ! (i mod length (palette colors))) (emitted 0 slices)
         \<and> palette colors \<noteq> [] \<and> palette None = default_colors \<and> length default_colors = 6"
proof -
  have "map color (make_pie_paths slices tot cx cy r colors)
           = map (\<lambda>(i, s). palette colors ! (i mod length (palette colors))) (emitted 0 slices)"
    using assms
    by (auto simp: make_pie_paths_def pie_loop_paths pie_entry_def Let_def case_prod_beta
          intro!: nth_equalityI)
  then show ?thesis
    by (simp add: palette_def default_colors_def split: option.splits)
qed

theorem palette_by_input_index_witness:
  "map color (make_pie_paths [\<lparr>slice.category = ''Food'', value = 100\<rparr>,
       \<lparr>slice.category = ''Travel'', value = 0\<rparr>, \<lparr>slice.category = ''Bills'', value = 50\<rparr>]
       150 120 120 100 None) = [default_colors ! 0, default_colors ! 2]"
  using palette_by_input_index [of 150 "[\<lparr>slice.category = ''Food'', value = 100\<rparr>,
       \<lparr>slice.category = ''Travel'', value = 0\<rparr>, \<lparr>slice.category = ''Bills'', value = 50\<rparr>]" 120 120 100 None]
  by (simp add: eval_pie)

text \<open>
  C8. The path string of every emitted slice is a move to the centre, a line to the point
  of the circle at the slice's start angle, an arc to the point at its end angle and the
  close command; the large-arc flag is 1 exactly when the span exceeds 180 degrees and
  the sweep flag is 1.
\<close>

theorem pie_path_description:
  assumes "0 < tot" and "k < length (make_pie_paths slices tot cx cy r colors)"
    and "start = sum_list (map (slice_angle tot \<circ> snd) (take k (emitted 0 slices)))"
    and "angle = slice_angle tot (snd (emitted 0 slices ! k))"
  shows "d (make_pie_paths slices tot cx cy r colors ! k) =
           ''M '' @ format_2f cx @ '','' @ format_2f cy
           @ '' L '' @ format_2f (cx + r * cos (radians (start - 90)))
           @ '','' @ format_2f (cy + r * sin (radians (start - 90)))
           @ '' A '' @ format_2f r @ '','' @ format_2f r
           @ '' 0 '' @ (if 180 < angle then ''1'' else ''0'') @ '',1 ''
           @ format_2f (cx + r * cos (radians (start + angle - 90)))
           @ '','' @ format_2f (cy + r * sin (radians (start + angle - 90))) @ '' Z''"
proof -
  from assms(1,2) have k: "k < length (emitted 0 slices)"
    by (simp add: make_pie_paths_length)
  show ?thesis
    unfolding make_pie_paths_nth [OF assms(1) k] assms(3,4)
    by (simp add: pie_entry_def path_d_def Let_def)
qed

lemmas eval_format = format_2f_def round_half_even_def str_nat.simps digit_char_def

lemma cos_sin_three_half_pi: "cos (3 * pi / 2) = 0" "sin (3 * pi / 2) = - 1"
  using cos_3over2_pi sin_3over2_pi by (simp_all add: mult.commute)

lemma format_2f_examples:
  "format_2f 120 = ''120.00''" "format_2f 100 = ''100.00''" "format_2f 20 = ''20.00''"
  by (simp_all add: eval_format)

theorem pie_path_description_witness:
  "d (make_pie_paths [\<lparr>slice.category = ''Food'', value = 75\<rparr>, \<lparr>slice.category = ''Bills'', value = 25\<rparr>]
        100 120 120 100 None ! 0)
     = ''M 120.00,120.00 L 120.00,20.00 A 100.00,100.00 0 1,1 20.00,120.00 Z''
   \<and> d (make_pie_paths [\<lparr>slice.category = ''Food'', value = 75\<rparr>, \<lparr>slice.category = ''Bills'', value = 25\<rparr>]
        100 120 120 100 None ! 1)
     = ''M 120.00,120.00 L 20.00,120.00 A 100.00,100.00 0 0,1 120.00,20.00 Z''"
proof -
  let ?S = "[\<lparr>slice.category = ''Food'', value = 75\<rparr>, \<lparr>slice.category = ''Bills'', value = 25\<rparr>]"
  have len: "length (make_pie_paths ?S 100 120 120 100 None) = 2"
    by (simp add: eval_pie)
  have E: "emitted 0 ?S = [(0, \<lparr>slice.category = ''Food'', value = 75\<rparr>), (1, \<lparr>slice.category = ''Bills'', value = 25\<rparr>)]"
    by (simp add: emitted_def enumerate_eq_zip upt_conv_Cons)
  have "d (make_pie_paths ?S 100 120 120 100 None ! 0) =
           ''M '' @ format_2f 120 @ '','' @ format_2f 120
           @ '' L '' @ format_2f (120 + 100 * cos (radians (0 - 90)))
           @ '','' @ format_2f (120 + 100 * sin (radians (0 - 90)))
           @ '' A '' @ format_2f 100 @ '','' @ format_2f 100
           @ '' 0 '' @ (if 180 < (270::real) then ''1'' else ''0'') @ '',1 ''
           @ format_2f (120 + 100 * cos (radians (0 + 270 - 90)))
           @ '','' @ format_2f (120 + 100 * sin (radians (0 + 270 - 90))) @ '' Z''"
    by (rule pie_path_description) (simp_all add: len E slice_angle_def)
  also have "\<dots> = ''M 120.00,120.00 L 120.00,20.00 A 100.00,100.00 0 1,1 20.00,120.00 Z''"
    by (simp add: radians_def format_2f_examples)
  finally have first: "d (make_pie_paths ?S 100 120 120 100 None ! 0) =
      ''M 120.00,120.00 L 120.00,20.00 A 100.00,100.00 0 1,1 20.00,120.00 Z''" .
  have "d (make_pie_paths ?S 100 120 120 100 None ! 1) =
           ''M '' @ format_2f 120 @ '','' @ format_2f 120
           @ '' L '' @ format_2f (120 + 100 * cos (radians (270 - 90)))
           @ '','' @ format_2f (120 + 100 * sin (radians (270 - 90)))
           @ '' A '' @ format_2f 100 @ '','' @ format_2f 100
           @ '' 0 '' @ (if 180 < (90::real) then ''1'' else ''0'') @ '',1 ''
           @ format_2f (120 + 100 * cos (radians (270 + 90 - 90)))
           @ '','' @ format_2f (120 + 100 * sin (radians (270 + 90 - 90))) @ '' Z''"
    by (rule pie_path_description) (simp_all add: len E slice_angle_def)
  also have "\<dots> = ''M 120.00,120.00 L 20.00,120.00 A 100.00,100.00 0 0,1 120.00,20.00 Z''"
    by (simp add: radians_def format_2f_examples cos_sin_three_half_pi)
  finally have second: "d (make_pie_paths ?S 100 120 120 100 None ! 1) =
      ''M 120.00,120.00 L 20.00,120.00 A 100.00,100.00 0 0,1 120.00,20.00 Z''" .
  from first second show ?thesis ..
qed

subsection \<open>Bar scaling\<close>

lemma max_bar_loop_ge: "m \<le> max_bar_loop rows m"
proof (induction rows arbitrary: m)
  case Nil
  show ?case by simp
next
  case (Cons row rows)
  have "m \<le> max m (max (primary row) (compare row))" by simp
  also have "\<dots> \<le> max_bar_loop rows (max m (max (primary row) (compare row)))" by (rule Cons.IH)
  finally show ?case by simp
qed

lemma max_bar_loop_bounded:
  "\<forall>row \<in> set rows. primary row \<le> m \<and> compare row \<le> m \<Longrightarrow> max_bar_loop rows m = m"
  by (induction rows) (simp_all add: max_absorb1)

lemma max_bar_value_pos: "0 < max_bar_value rows pt ct"
proof -
  have "0 \<le> max_bar_loop rows 0" by (rule max_bar_loop_ge)
  then show ?thesis
    by (auto simp: max_bar_value_def Let_def)
qed

lemma bar_widths_ok:
  "mbv \<noteq> 0 \<Longrightarrow>
     bar_widths rows mbv =
       Inr (map (\<lambda>row. (primary row / mbv * of_int bar_max_width,
                         compare row / mbv * of_int bar_max_width)) rows)"
  by (induction rows) (simp_all add: bar_width_def py_truediv_def)

text \<open>
  C6. The scaling denominator \<open>max_bar_value\<close> is never zero and the widths of all bars
  are computed without a division error. When no category value exceeds 0 the
  denominator is \<open>max (primary_total, compare_total, 1)\<close>; when all category values and
  both totals are zero it is 1 and every bar width is 0.
\<close>

theorem bar_scaling_never_divides_by_zero:
  "max_bar_value rows primary_total compare_total \<noteq> 0
   \<and> bar_widths rows (max_bar_value rows primary_total compare_total) =
       Inr (map (\<lambda>row. (primary row / max_bar_value rows primary_total compare_total
                            * of_int bar_max_width,
                         compare row / max_bar_value rows primary_total compare_total
                            * of_int bar_max_width)) rows)
   \<and> ((\<forall>row \<in> set rows. primary row \<le> 0 \<and> compare row \<le> 0) \<longrightarrow>
        max_bar_value rows primary_total compare_total
          = max primary_total (max compare_total 1))
   \<and> ((\<forall>row \<in> set rows. primary row = 0 \<and> compare row = 0)
        \<and> primary_total = 0 \<and> compare_total = 0 \<longrightarrow>
        max_bar_value rows primary_total compare_total = 1
        \<and> bar_widths rows (max_bar_value rows primary_total compare_total)
            = Inr (map (\<lambda>row. (0, 0)) rows))"
proof -
  have nz: "max_bar_value rows primary_total compare_total \<noteq> 0"
    using max_bar_value_pos [of rows primary_total compare_total] by simp
  have fallback: "max_bar_value rows primary_total compare_total
          = max primary_total (max compare_total 1)"
    if "\<forall>row \<in> set rows. primary row \<le> 0 \<and> compare row \<le> 0"
    using max_bar_loop_bounded [OF that] by (simp add: max_bar_value_def)
  have zero: "max_bar_value rows primary_total compare_total = 1
        \<and> bar_widths rows (max_bar_value rows primary_total compare_total)
            = Inr (map (\<lambda>row. (0, 0)) rows)"
    if z: "\<forall>row \<in> set rows. primary row = 0 \<and> compare row = 0"
      and t: "primary_total = 0" "compare_total = 0"
  proof -
    from z have "\<forall>row \<in> set rows. primary row \<le> 0 \<and> compare row \<le> 0" by simp
    then have "max_bar_value rows primary_total compare_total
          = max primary_total (max compare_total 1)"
      by (rule fallback)
    with t have one: "max_bar_value rows primary_total compare_total = 1"
      by simp
    have "bar_widths rows 1 = Inr (map (\<lambda>row. (0, 0)) rows)"
      using z by (simp add: bar_widths_ok)
    with one show ?thesis by simp
  qed
  show ?thesis
    using nz fallback zero by (simp add: bar_widths_ok)
qed

theorem bar_scaling_never_divides_by_zero_witness:
  "max_bar_value [\<lparr>comparison_row.category = ''Food'', primary = 0, compare = 0, diff = 0, pct_change = PyNone\<rparr>] 0 0 = 1
   \<and> bar_widths [\<lparr>comparison_row.category = ''Food'', primary = 0, compare = 0, diff = 0, pct_change = PyNone\<rparr>] 1
       = Inr [(0, 0)]"
  using bar_scaling_never_divides_by_zero
    [of "[\<lparr>comparison_row.category = ''Food'', primary = 0, compare = 0, diff = 0, pct_change = PyNone\<rparr>]" 0 0]
  by (simp add: max_bar_value_def bar_width_def py_truediv_def)

subsection \<open>Malformed dates in the expense forms\<close>

lemmas eval_strptime = is_digit_def is_digit19_def digit_val_def py_date_def days_in_month_def
  is_leap_def

text \<open>
  C5 fails as stated for the edit handler: a date that does not parse is ignored and the
  record keeps the date it had, which is not the current date.
\<close>

theorem edit_keeps_date_counterexample:
  "edit_expense (\<lambda>s. if s = ''12.50'' then Some 12.5 else None)
     \<lparr>logged_in = True, http_method = POST, form_title = Some ''Lunch'',
      form_amount = Some ''12.50'', form_category = Some ''Food'',
      form_date = Some ''not-a-date''\<rparr>
     1
     [\<lparr>id' = 1, title = ''Dinner'', amount = 30, expense.category = ''Food'',
       date = \<lparr>year = 2020, month = 1, day = 15\<rparr>, user_id = None\<rparr>]
   = Inr (Redirect ''index'',
       [\<lparr>id' = 1, title = ''Lunch'', amount = 12.5, expense.category = ''Food'',
         date = \<lparr>year = 2020, month = 1, day = 15\<rparr>, user_id = None\<rparr>])"
  by (simp add: edit_expense_def eval_strptime)

text \<open>
  C5, amended. For a logged-in POST request whose title, amount and category are present,
  whose amount converts to a float and whose date field is present but does not parse:
  record creation, with the three fields non-empty, succeeds and stores the record with
  the current date; record editing succeeds and stores the edited record with the date
  it had before.
\<close>

theorem malformed_date_fallback:
  assumes "logged_in req" and "http_method req = POST"
    and "form_title req = Some t" and "form_amount req = Some am"
    and "form_category req = Some c" and "py_float am = Some a"
    and "form_date req = Some date_str" and "strptime_ymd date_str = None"
  shows "(t \<noteq> [] \<and> am \<noteq> [] \<and> c \<noteq> [] \<longrightarrow>
            add_expense py_float today req table =
              Inr (Redirect ''index'',
                   table @ [\<lparr>id' = next_id table, title = t, amount = a,
                             expense.category = c, date = today, user_id = None\<rparr>]))
       \<and> (find (\<lambda>e. id' e = expense_id) table = Some ex \<longrightarrow>
            edit_expense py_float req expense_id table =
              Inr (Redirect ''index'',
                   store_expense expense_id
                     (ex\<lparr>title := t, amount := a, expense.category := c\<rparr>) table)
            \<and> date (ex\<lparr>title := t, amount := a, expense.category := c\<rparr>) = date ex)"
  using assms by (simp add: add_expense_def edit_expense_def)

theorem malformed_date_fallback_witness:
  "add_expense (\<lambda>s. if s = ''12.50'' then Some 12.5 else None)
     \<lparr>year = 2026, month = 11, day = 3\<rparr>
     \<lparr>logged_in = True, http_method = POST, form_title = Some ''Lunch'',
      form_amount = Some ''12.50'', form_category = Some ''Food'',
      form_date = Some ''03/11/2026''\<rparr>
     [\<lparr>id' = 1, title = ''Dinner'', amount = 30, expense.category = ''Food'',
       date = \<lparr>year = 2020, month = 1, day = 15\<rparr>, user_id = None\<rparr>]
   = Inr (Redirect ''index'',
       [\<lparr>id' = 1, title = ''Dinner'', amount = 30, expense.category = ''Food'',
         date = \<lparr>year = 2020, month = 1, day = 15\<rparr>, user_id = None\<rparr>,
        \<lparr>id' = 2, title = ''Lunch'', amount = 12.5, expense.category = ''Food'',
         date = \<lparr>year = 2026, month = 11, day = 3\<rparr>, user_id = None\<rparr>])
   \<and> edit_expense (\<lambda>s. if s = ''12.50'' then Some 12.5 else None)
     \<lparr>logged_in = True, http_method = POST, form_title = Some ''Lunch'',
      form_amount = Some ''12.50'', form_category = Some ''Food'',
      form_date = Some ''03/11/2026''\<rparr>
     1
     [\<lparr>id' = 1, title = ''Dinner'', amount = 30, expense.category = ''Food'',
       date = \<lparr>year = 2020, month = 1, day = 15\<rparr>, user_id = None\<rparr>]
   = Inr (Redirect ''index'',
       [\<lparr>id' = 1, title = ''Lunch'', amount = 12.5, expense.category = ''Food'',
         date = \<lparr>year = 2020, month = 1, day = 15\<rparr>, user_id = None\<rparr>])"
proof -
  have p: "strptime_ymd ''03/11/2026'' = None"
    by (simp add: eval_strptime)
  show ?thesis
    using malformed_date_fallback [of
      "\<lparr>logged_in = True, http_method = POST, form_title = Some ''Lunch'',
        form_amount = Some ''12.50'', form_category = Some ''Food'',
        form_date = Some ''03/11/2026''\<rparr>"
      "''Lunch''" "''12.50''" "''Food''" "\<lambda>s. if s = ''12.50'' then Some 12.5 else None" "12.5"
      "''03/11/2026''" "\<lparr>year = 2026, month = 11, day = 3\<rparr>"
      "[\<lparr>id' = 1, title = ''Dinner'', amount = 30, expense.category = ''Food'',
         date = \<lparr>year = 2020, month = 1, day = 15\<rparr>, user_id = None\<rparr>]"
      1
      "\<lparr>id' = 1, title = ''Dinner'', amount = 30, expense.category = ''Food'',
         date = \<lparr>year = 2020, month = 1, day = 15\<rparr>, user_id = None\<rparr>"] p
    by (simp add: next_id_def)
qed

end
